theory Spec2Isabelle
  imports Complex_Main
begin

section \<open>The training notebook\<close>

text \<open>Source: \<^verbatim>\<open>keras/HIGGS_train.ipynb\<close>.\<close>

text \<open>
  The notebook is a linear script over NumPy, h5py, scikit-learn and Keras. Its own
  code is the sequence of library calls, their arguments, and the data flow between
  them. The model keeps exactly that: every call of the source appends an entry to a
  trace, the value a library returns (or the exception it raises) comes from a record
  of library functions that is a parameter of the script, and an exception ends the run
  where it is raised, as nothing in the notebook catches one. Where the arguments fix
  what a call returns (creating a model or a scaler, adding a layer, compiling, printing
  the summary), the library still decides whether the call raises and what it does to
  the environment.

  Cell 1 (imports, seeding NumPy's generator, choosing the Keras backend) lies before
  the first modelled line; the model starts at the download cell.
\<close>

subsection \<open>Values\<close>

type_synonym path = string

text \<open>A NumPy array: its shape and its entries in row-major order.\<close>

datatype 'a ndarray = NDArray (shape: "nat list") (entries: "'a list")

text \<open>Python exceptions: the one the script's own indexing can raise, and whatever a
  library raises.\<close>

datatype exn = IndexError | LibraryError string

text \<open>The configuration of a \<^verbatim>\<open>Dense\<close> layer, with the keyword arguments the notebook
  passes; \<^verbatim>\<open>input_dim\<close> is given for the first layer of a model only.\<close>

record dense =
  units :: nat
  kernel_initializer :: string
  activation :: string
  input_dim :: "nat option"

definition Dense :: "nat \<Rightarrow> string \<Rightarrow> string \<Rightarrow> nat option \<Rightarrow> dense" where
  "Dense n init act d =
     \<lparr>units = n, kernel_initializer = init, activation = act, input_dim = d\<rparr>"

text \<open>A \<^verbatim>\<open>Sequential\<close> model: the stack of layers added so far and what
  \<^verbatim>\<open>compile\<close> has set. The weights are the library's and live in the environment.\<close>

record sequential =
  layers :: "dense list"
  loss :: "string option"
  optimizer :: "string option"
  metrics :: "string list"

definition Sequential :: sequential where
  "Sequential = \<lparr>layers = [], loss = None, optimizer = None, metrics = []\<rparr>"

definition add :: "sequential \<Rightarrow> dense \<Rightarrow> sequential" where
  "add m l = m\<lparr>layers := layers m @ [l]\<rparr>"

definition compile :: "sequential \<Rightarrow> string \<Rightarrow> string \<Rightarrow> string list \<Rightarrow> sequential" where
  "compile m lo opt ms = m\<lparr>loss := Some lo, optimizer := Some opt, metrics := ms\<rparr>"

subsection \<open>Library calls and the trace\<close>

text \<open>One constructor for each call the notebook makes, with the arguments it passes;
  \<^verbatim>\<open>Dense(...)\<close> is the layer argument of \<^verbatim>\<open>add\<close>.\<close>

datatype ('a, 'sc) call =
    Os_path_exists path
  | Subprocess_call string bool
  | H5py_File path
  | H5py_getitem path string
  | Np_array path string
  | Shape_getitem "nat list" nat
  | Sequential_init
  | Model_add sequential dense
  | Model_summary sequential
  | Model_compile sequential string string "string list"
  | Train_test_split "'a ndarray" "'a ndarray" rat nat bool
  | StandardScaler_init
  | Scaler_fit "'a ndarray"
  | Py_open path string
  | Pickle_dump 'sc path
  | Scaler_transform 'sc "'a ndarray"
  | Model_fit sequential "'a ndarray" "'a ndarray" nat nat rat
  | Model_save sequential path

text \<open>The same calls without their arguments: the steps of the workflow.\<close>

datatype step =
    Check_file | Download | Open_file | Get_dataset | Read_array | Read_shape
  | New_model | Add_layer | Summary | Compile | Split | New_scaler | Fit_scaler
  | Open_output | Dump_scaler | Transform | Train | Save

fun step_of :: "('a, 'sc) call \<Rightarrow> step" where
  "step_of (Os_path_exists _) = Check_file"
| "step_of (Subprocess_call _ _) = Download"
| "step_of (H5py_File _) = Open_file"
| "step_of (H5py_getitem _ _) = Get_dataset"
| "step_of (Np_array _ _) = Read_array"
| "step_of (Shape_getitem _ _) = Read_shape"
| "step_of Sequential_init = New_model"
| "step_of (Model_add _ _) = Add_layer"
| "step_of (Model_summary _) = Summary"
| "step_of (Model_compile _ _ _ _) = Compile"
| "step_of (Train_test_split _ _ _ _ _) = Split"
| "step_of StandardScaler_init = New_scaler"
| "step_of (Scaler_fit _) = Fit_scaler"
| "step_of (Py_open _ _) = Open_output"
| "step_of (Pickle_dump _ _) = Dump_scaler"
| "step_of (Scaler_transform _ _) = Transform"
| "step_of (Model_fit _ _ _ _ _ _) = Train"
| "step_of (Model_save _ _) = Save"

text \<open>A trace entry: the call, and the exception it raised if it did not return.\<close>

type_synonym ('a, 'sc) entry = "('a, 'sc) call \<times> exn option"

text \<open>The state of a run: the environment outside the script (disk, network, random
  generators, the weights Keras holds) and the trace of the calls made so far.\<close>

record ('a, 'sc, 'env) state =
  env :: 'env
  trace :: "('a, 'sc) entry list"

text \<open>The libraries. A call that touches the environment takes it and returns it; the
  computations of scikit-learn are functions of their arguments (the split is seeded by
  its \<^verbatim>\<open>random_state\<close> argument). Each may raise. \<open>configure\<close> stands for the calls
  that create or configure an object: it says whether such a call raises, and what it
  leaves of the environment (Keras draws initial weights when a layer is added).\<close>

record ('a, 'sc, 'env) lib =
  os_path_exists :: "path \<Rightarrow> 'env \<Rightarrow> bool"
  subprocess_call :: "string \<Rightarrow> bool \<Rightarrow> 'env \<Rightarrow> (exn + int) \<times> 'env"
  h5py_File :: "path \<Rightarrow> 'env \<Rightarrow> (exn + unit) \<times> 'env"
  h5py_getitem :: "path \<Rightarrow> string \<Rightarrow> 'env \<Rightarrow> (exn + unit) \<times> 'env"
  np_array :: "path \<Rightarrow> string \<Rightarrow> 'env \<Rightarrow> (exn + 'a ndarray) \<times> 'env"
  train_test_split :: "'a ndarray \<Rightarrow> 'a ndarray \<Rightarrow> rat \<Rightarrow> nat \<Rightarrow> bool \<Rightarrow>
     exn + ('a ndarray \<times> 'a ndarray \<times> 'a ndarray \<times> 'a ndarray)"
  scaler_fit :: "'a ndarray \<Rightarrow> exn + 'sc"
  py_open :: "path \<Rightarrow> string \<Rightarrow> 'env \<Rightarrow> (exn + unit) \<times> 'env"
  pickle_dump :: "'sc \<Rightarrow> path \<Rightarrow> 'env \<Rightarrow> (exn + unit) \<times> 'env"
  scaler_transform :: "'sc \<Rightarrow> 'a ndarray \<Rightarrow> exn + 'a ndarray"
  model_fit :: "sequential \<Rightarrow> 'a ndarray \<Rightarrow> 'a ndarray \<Rightarrow> nat \<Rightarrow> nat \<Rightarrow> rat \<Rightarrow>
     'env \<Rightarrow> (exn + unit) \<times> 'env"
  model_save :: "sequential \<Rightarrow> path \<Rightarrow> 'env \<Rightarrow> (exn + unit) \<times> 'env"
  configure :: "('a, 'sc) call \<Rightarrow> 'env \<Rightarrow> exn option \<times> 'env"

subsection \<open>Running statements in sequence\<close>

type_synonym ('r, 'a, 'sc, 'env) prog =
  "('a, 'sc, 'env) state \<Rightarrow> (exn + 'r) \<times> ('a, 'sc, 'env) state"

definition return :: "'r \<Rightarrow> ('r, 'a, 'sc, 'env) prog" where
  "return r s = (Inr r, s)"

text \<open>The next statement runs only if the one before returned: an exception skips the
  rest of the script.\<close>

definition and_then ::
  "('r, 'a, 'sc, 'env) prog \<Rightarrow> ('r \<Rightarrow> ('q, 'a, 'sc, 'env) prog) \<Rightarrow> ('q, 'a, 'sc, 'env) prog" where
  "and_then p k s = (case p s of (Inl e, s') \<Rightarrow> (Inl e, s') | (Inr r, s') \<Rightarrow> k r s')"

text \<open>A library call: it is recorded in the trace with its outcome.\<close>

definition call ::
  "('a, 'sc) call \<Rightarrow> ('env \<Rightarrow> (exn + 'r) \<times> 'env) \<Rightarrow> ('r, 'a, 'sc, 'env) prog" where
  "call c f s =
     (case f (env s) of
        (Inl e, v) \<Rightarrow> (Inl e, \<lparr>env = v, trace = trace s @ [(c, Some e)]\<rparr>)
      | (Inr r, v) \<Rightarrow> (Inr r, \<lparr>env = v, trace = trace s @ [(c, None)]\<rparr>))"

text \<open>A call whose result does not depend on the environment and leaves it alone.\<close>

definition pure :: "exn + 'r \<Rightarrow> 'env \<Rightarrow> (exn + 'r) \<times> 'env" where
  "pure x v = (x, v)"

text \<open>A call that creates or configures an object: \<open>r\<close> is the object as the arguments
  determine it.\<close>

definition configured ::
  "('a, 'sc, 'env) lib \<Rightarrow> ('a, 'sc) call \<Rightarrow> 'r \<Rightarrow> ('r, 'a, 'sc, 'env) prog" where
  "configured L c r =
     call c (\<lambda>v. case configure L c v of
                    (None, v') \<Rightarrow> (Inr r, v')
                  | (Some e, v') \<Rightarrow> (Inl e, v'))"

text \<open>Indexing a shape tuple, \<^verbatim>\<open>inputs.shape[1]\<close>: out of range raises.\<close>

definition shape_getitem :: "nat list \<Rightarrow> nat \<Rightarrow> exn + nat" where
  "shape_getitem sh i = (if i < length sh then Inr (sh ! i) else Inl IndexError)"

subsection \<open>The cells\<close>

text \<open>
  \<^verbatim>\<open>if not os.path.exists("HIGGS.h5"):\<close>
  \<^verbatim>\<open>    subprocess.call("wget http://mlphysics.ics.uci.edu/data/higgs/HIGGS.h5", shell=True)\<close>
  The exit status of the command is dropped.
\<close>

definition wget_command :: string where
  "wget_command = ''wget http://mlphysics.ics.uci.edu/data/higgs/HIGGS.h5''"

definition download :: "('a, 'sc, 'env) lib \<Rightarrow> (unit, 'a, 'sc, 'env) prog" where
  "download L =
     and_then (call (Os_path_exists ''HIGGS.h5'')
                 (\<lambda>v. (Inr (os_path_exists L ''HIGGS.h5'' v), v)))
       (\<lambda>present.
          if \<not> present
          then and_then (call (Subprocess_call wget_command True)
                           (subprocess_call L wget_command True))
                 (\<lambda>status. return ())
          else return ())"

text \<open>
  \<^verbatim>\<open>file_ = h5py.File("HIGGS.h5")\<close>
  \<^verbatim>\<open>inputs = np.array(file_["features"])\<close>
  \<^verbatim>\<open>targets = np.array(file_["targets"])\<close>
\<close>

definition read_dataset ::
  "('a, 'sc, 'env) lib \<Rightarrow> path \<Rightarrow> string \<Rightarrow> ('a ndarray, 'a, 'sc, 'env) prog" where
  "read_dataset L file key =
     and_then (call (H5py_getitem file key) (h5py_getitem L file key))
       (\<lambda>dataset. call (Np_array file key) (np_array L file key))"

definition read_out ::
  "('a, 'sc, 'env) lib \<Rightarrow> ('a ndarray \<times> 'a ndarray, 'a, 'sc, 'env) prog" where
  "read_out L =
     and_then (call (H5py_File ''HIGGS.h5'') (h5py_File L ''HIGGS.h5''))
       (\<lambda>file.
     and_then (read_dataset L ''HIGGS.h5'' ''features'')
       (\<lambda>inputs.
     and_then (read_dataset L ''HIGGS.h5'' ''targets'')
       (\<lambda>targets. return (inputs, targets))))"

text \<open>\<^verbatim>\<open>model.add(layer)\<close>, recorded.\<close>

definition model_add ::
  "('a, 'sc, 'env) lib \<Rightarrow> sequential \<Rightarrow> dense \<Rightarrow> (sequential, 'a, 'sc, 'env) prog" where
  "model_add L m l = configured L (Model_add m l) (add m l)"

text \<open>
  \<^verbatim>\<open>model_shallow = Sequential()\<close>
  \<^verbatim>\<open>model_shallow.add(Dense(1000, kernel_initializer="glorot_normal", activation="tanh",\<close>
  \<^verbatim>\<open>    input_dim=inputs.shape[1]))\<close>
  \<^verbatim>\<open>model_shallow.add(Dense(1, kernel_initializer="glorot_uniform", activation="sigmoid"))\<close>
  \<^verbatim>\<open>model_shallow.summary()\<close>
\<close>

definition build_shallow ::
  "('a, 'sc, 'env) lib \<Rightarrow> 'a ndarray \<Rightarrow> (sequential, 'a, 'sc, 'env) prog" where
  "build_shallow L inputs =
     and_then (configured L Sequential_init Sequential)
       (\<lambda>m0.
     and_then (call (Shape_getitem (shape inputs) 1) (pure (shape_getitem (shape inputs) 1)))
       (\<lambda>d.
     and_then (model_add L m0 (Dense 1000 ''glorot_normal'' ''tanh'' (Some d)))
       (\<lambda>m1.
     and_then (model_add L m1 (Dense 1 ''glorot_uniform'' ''sigmoid'' None))
       (\<lambda>m2.
     and_then (configured L (Model_summary m2) ())
       (\<lambda>u. return m2)))))"

text \<open>The deep model: five \<^verbatim>\<open>Dense(300, ..., activation="relu")\<close> layers, the first with
  \<^verbatim>\<open>input_dim=inputs.shape[1]\<close>, then the same output layer.\<close>

definition build_deep ::
  "('a, 'sc, 'env) lib \<Rightarrow> 'a ndarray \<Rightarrow> (sequential, 'a, 'sc, 'env) prog" where
  "build_deep L inputs =
     and_then (configured L Sequential_init Sequential)
       (\<lambda>m0.
     and_then (call (Shape_getitem (shape inputs) 1) (pure (shape_getitem (shape inputs) 1)))
       (\<lambda>d.
     and_then (model_add L m0 (Dense 300 ''glorot_normal'' ''relu'' (Some d)))
       (\<lambda>m1.
     and_then (model_add L m1 (Dense 300 ''glorot_normal'' ''relu'' None))
       (\<lambda>m2.
     and_then (model_add L m2 (Dense 300 ''glorot_normal'' ''relu'' None))
       (\<lambda>m3.
     and_then (model_add L m3 (Dense 300 ''glorot_normal'' ''relu'' None))
       (\<lambda>m4.
     and_then (model_add L m4 (Dense 300 ''glorot_normal'' ''relu'' None))
       (\<lambda>m5.
     and_then (model_add L m5 (Dense 1 ''glorot_uniform'' ''sigmoid'' None))
       (\<lambda>m6.
     and_then (configured L (Model_summary m6) ())
       (\<lambda>u. return m6)))))))))"

text \<open>
  \<^verbatim>\<open>for model in [model_shallow, model_deep]:\<close>
  \<^verbatim>\<open>    model.compile(loss="binary_crossentropy", optimizer="nadam", metrics=["accuracy"])\<close>
  The loop changes the models in place; the model returns them in the list's order.
\<close>

fun compile_models ::
  "('a, 'sc, 'env) lib \<Rightarrow> sequential list \<Rightarrow> (sequential list, 'a, 'sc, 'env) prog" where
  "compile_models L [] = return []"
| "compile_models L (m # ms) =
     and_then (configured L (Model_compile m ''binary_crossentropy'' ''nadam'' [''accuracy''])
                 (compile m ''binary_crossentropy'' ''nadam'' [''accuracy'']))
       (\<lambda>m'. and_then (compile_models L ms) (\<lambda>ms'. return (m' # ms')))"

text \<open>
  \<^verbatim>\<open>inputs_train, inputs_test, targets_train, targets_test = train_test_split(\<close>
  \<^verbatim>\<open>        inputs, targets, test_size=0.90, random_state=1234, shuffle=True)\<close>
\<close>

definition split_data ::
  "('a, 'sc, 'env) lib \<Rightarrow> 'a ndarray \<Rightarrow> 'a ndarray \<Rightarrow>
     ('a ndarray \<times> 'a ndarray \<times> 'a ndarray \<times> 'a ndarray, 'a, 'sc, 'env) prog" where
  "split_data L inputs targets =
     call (Train_test_split inputs targets (9 / 10) 1234 True)
       (pure (train_test_split L inputs targets (9 / 10) 1234 True))"

text \<open>
  \<^verbatim>\<open>preprocessing_input = StandardScaler()\<close>
  \<^verbatim>\<open>preprocessing_input.fit(inputs_train)\<close>
  \<^verbatim>\<open>pickle.dump(preprocessing_input, open("HIGGS_preprocessing.pickle", "wb"))\<close>
\<close>

definition prepare_preprocessing ::
  "('a, 'sc, 'env) lib \<Rightarrow> 'a ndarray \<Rightarrow> ('sc, 'a, 'sc, 'env) prog" where
  "prepare_preprocessing L inputs_train =
     and_then (configured L StandardScaler_init ())
       (\<lambda>unfitted.
     and_then (call (Scaler_fit inputs_train) (pure (scaler_fit L inputs_train)))
       (\<lambda>preprocessing_input.
     and_then (call (Py_open ''HIGGS_preprocessing.pickle'' ''wb'')
                 (py_open L ''HIGGS_preprocessing.pickle'' ''wb''))
       (\<lambda>out.
     and_then (call (Pickle_dump preprocessing_input ''HIGGS_preprocessing.pickle'')
                 (pickle_dump L preprocessing_input ''HIGGS_preprocessing.pickle''))
       (\<lambda>u. return preprocessing_input))))"

text \<open>
  \<^verbatim>\<open>for model, name in zip([model_shallow, model_deep], ["HIGGS_shallow.h5", "HIGGS_deep.h5"]):\<close>
  \<^verbatim>\<open>    model.fit(preprocessing_input.transform(inputs_train), targets_train,\<close>
  \<^verbatim>\<open>            batch_size=100, epochs=10, validation_split=0.25)\<close>
  \<^verbatim>\<open>    model.save(name)\<close>
\<close>

fun train_models ::
  "('a, 'sc, 'env) lib \<Rightarrow> 'sc \<Rightarrow> 'a ndarray \<Rightarrow> 'a ndarray \<Rightarrow> (sequential \<times> path) list \<Rightarrow>
     (unit, 'a, 'sc, 'env) prog" where
  "train_models L preprocessing_input inputs_train targets_train [] = return ()"
| "train_models L preprocessing_input inputs_train targets_train ((model, name) # rest) =
     and_then (call (Scaler_transform preprocessing_input inputs_train)
                 (pure (scaler_transform L preprocessing_input inputs_train)))
       (\<lambda>x.
     and_then (call (Model_fit model x targets_train 100 10 (1 / 4))
                 (model_fit L model x targets_train 100 10 (1 / 4)))
       (\<lambda>history.
     and_then (call (Model_save model name) (model_save L model name))
       (\<lambda>u. train_models L preprocessing_input inputs_train targets_train rest)))"

subsection \<open>The script\<close>

text \<open>The variables the notebook has bound when it reaches its end.\<close>

record ('a, 'sc) globals =
  inputs :: "'a ndarray"
  targets :: "'a ndarray"
  model_shallow :: sequential
  model_deep :: sequential
  inputs_train :: "'a ndarray"
  inputs_test :: "'a ndarray"
  targets_train :: "'a ndarray"
  targets_test :: "'a ndarray"
  preprocessing_input :: 'sc

text \<open>The cells in the notebook's order. After the compile loop the two names refer to
  the compiled models.\<close>

definition HIGGS_train ::
  "('a, 'sc, 'env) lib \<Rightarrow> (('a, 'sc) globals, 'a, 'sc, 'env) prog" where
  "HIGGS_train L =
     and_then (download L)
       (\<lambda>u.
     and_then (read_out L)
       (\<lambda>(inputs, targets).
     and_then (build_shallow L inputs)
       (\<lambda>model_shallow.
     and_then (build_deep L inputs)
       (\<lambda>model_deep.
     and_then (compile_models L [model_shallow, model_deep])
       (\<lambda>models.
     and_then (split_data L inputs targets)
       (\<lambda>(inputs_train, inputs_test, targets_train, targets_test).
     and_then (prepare_preprocessing L inputs_train)
       (\<lambda>preprocessing_input.
     and_then (train_models L preprocessing_input inputs_train targets_train
                 (zip models [''HIGGS_shallow.h5'', ''HIGGS_deep.h5'']))
       (\<lambda>u. return
          \<lparr>inputs = inputs, targets = targets,
           model_shallow = models ! 0, model_deep = models ! 1,
           inputs_train = inputs_train, inputs_test = inputs_test,
           targets_train = targets_train, targets_test = targets_test,
           preprocessing_input = preprocessing_input\<rparr>))))))))"

text \<open>A run from a fresh trace, and the exit status of the interpreter: an uncaught
  exception ends the process with status 1, a script that reaches its end with 0.\<close>

definition run ::
  "('a, 'sc, 'env) lib \<Rightarrow> 'env \<Rightarrow> (exn + ('a, 'sc) globals) \<times> ('a, 'sc, 'env) state" where
  "run L v = HIGGS_train L \<lparr>env = v, trace = []\<rparr>"

definition exit_status :: "exn + 'r \<Rightarrow> int" where
  "exit_status r = (case r of Inl e \<Rightarrow> 1 | Inr x \<Rightarrow> 0)"

subsection \<open>Observing a run\<close>

text \<open>The entries of a trace that belong to one step of the workflow.\<close>

definition calls_at :: "step \<Rightarrow> ('a, 'sc) entry list \<Rightarrow> ('a, 'sc) entry list" where
  "calls_at w es = filter (\<lambda>e. step_of (fst e) = w) es"

definition steps_of :: "('a, 'sc) entry list \<Rightarrow> step list" where
  "steps_of es = map (step_of \<circ> fst) es"

text \<open>The steps of a run that reaches the end of the notebook, in the order of its cells;
  the download is there only if the dataset file was absent.\<close>

definition workflow :: "bool \<Rightarrow> step list" where
  "workflow present =
     (if present then [Check_file] else [Check_file, Download]) @
     [Open_file, Get_dataset, Read_array, Get_dataset, Read_array,
      New_model, Read_shape, Add_layer, Add_layer, Summary,
      New_model, Read_shape, Add_layer, Add_layer, Add_layer, Add_layer, Add_layer, Add_layer,
      Summary,
      Compile, Compile,
      Split,
      New_scaler, Fit_scaler, Open_output, Dump_scaler,
      Transform, Train, Save, Transform, Train, Save]"

text \<open>A trace follows a list of steps: it is the whole list with every call returned,
  or it stops at the first call that raised, and the run ends with that exception.\<close>

definition conforms :: "step list \<Rightarrow> exn + 'r \<Rightarrow> ('a, 'sc) entry list \<Rightarrow> bool" where
  "conforms ws r es =
     (case r of
        Inr x \<Rightarrow> map (step_of \<circ> fst) es = ws \<and> map snd es = replicate (length ws) None
      | Inl e \<Rightarrow> (\<exists>n < length ws. map (step_of \<circ> fst) es = take (Suc n) ws \<and>
                   map snd es = replicate n None @ [Some e]))"

text \<open>What a program appends to the trace, related to the environment it starts in and
  to its result.\<close>

definition emits ::
  "('r, 'a, 'sc, 'env) prog \<Rightarrow> ('env \<Rightarrow> exn + 'r \<Rightarrow> ('a, 'sc) entry list \<Rightarrow> bool) \<Rightarrow> bool" where
  "emits p Q = (\<forall>s r s'. p s = (r, s') \<longrightarrow> (\<exists>es. trace s' = trace s @ es \<and> Q (env s) r es))"



text \<open>Step \<open>a\<close> does not occur from the first occurrence of step \<open>b\<close> on.\<close>

definition none_after :: "step \<Rightarrow> step \<Rightarrow> step list \<Rightarrow> bool" where
  "none_after a b ws = (a \<notin> set (dropWhile (\<lambda>w. w \<noteq> b) ws))"

text \<open>Every occurrence of step \<open>a\<close> comes after an occurrence of step \<open>b\<close>.\<close>

fun each_after :: "step \<Rightarrow> step \<Rightarrow> step list \<Rightarrow> bool" where
  "each_after a b [] = True"
| "each_after a b (w # ws) = (if w = b then True else w \<noteq> a \<and> each_after a b ws)"

text \<open>The models after the first \<open>n\<close> calls of \<^verbatim>\<open>add\<close>, for an input dimension \<open>d\<close>.\<close>

definition shallow_stack :: "nat \<Rightarrow> nat \<Rightarrow> sequential" where
  "shallow_stack d n =
     foldl add Sequential
       (take n [Dense 1000 ''glorot_normal'' ''tanh'' (Some d),
          Dense 1 ''glorot_uniform'' ''sigmoid'' None])"

definition deep_stack :: "nat \<Rightarrow> nat \<Rightarrow> sequential" where
  "deep_stack d n =
     foldl add Sequential
       (take n [Dense 300 ''glorot_normal'' ''relu'' (Some d),
          Dense 300 ''glorot_normal'' ''relu'' None, Dense 300 ''glorot_normal'' ''relu'' None,
          Dense 300 ''glorot_normal'' ''relu'' None, Dense 300 ''glorot_normal'' ''relu'' None,
          Dense 1 ''glorot_uniform'' ''sigmoid'' None])"

text \<open>The same libraries, except that the split hands back other held-out subsets:
  \<open>f\<close> and \<open>h\<close> replace the held-out inputs and targets by anything.\<close>

definition with_held_out ::
  "('a ndarray \<Rightarrow> 'a ndarray) \<Rightarrow> ('a ndarray \<Rightarrow> 'a ndarray) \<Rightarrow>
     ('a, 'sc, 'env) lib \<Rightarrow> ('a, 'sc, 'env) lib" where
  "with_held_out f h L =
     L\<lparr>train_test_split := \<lambda>X Y ts rs sh.
          map_sum id (\<lambda>(a, b, c, d). (a, f b, c, h d)) (train_test_split L X Y ts rs sh)\<rparr>"

subsection \<open>A sample environment\<close>

text \<open>Libraries over a disk that is the list of the files present, with a dataset of ten
  rows and two feature columns. The split keeps the last row for training; the scaler
  remembers the row it was fitted on and subtracts it; no call raises once the dataset
  file is there.\<close>

definition sample_features :: "int ndarray" where
  "sample_features =
     NDArray [10, 2] [1, 2, 3, 4, 5, 6, 7, 8, 9, 10, 11, 12, 13, 14, 15, 16, 17, 18, 19, 20]"

definition sample_targets :: "int ndarray" where
  "sample_targets = NDArray [10] [0, 1, 1, 0, 1, 0, 0, 1, 1, 0]"

definition sample_lib :: "int ndarray \<Rightarrow> (int, int list, path list) lib" where
  "sample_lib labels =
     \<lparr>os_path_exists = (\<lambda>p v. p \<in> set v),
      subprocess_call = (\<lambda>cmd sh v. (Inr 0, ''HIGGS.h5'' # v)),
      h5py_File = (\<lambda>p v. (if p \<in> set v then Inr () else Inl (LibraryError ''IOError''), v)),
      h5py_getitem = (\<lambda>p k v.
         (if k = ''features'' \<or> k = ''targets'' then Inr () else Inl (LibraryError ''KeyError''),
          v)),
      np_array = (\<lambda>p k v. (Inr (if k = ''features'' then sample_features else labels), v)),
      train_test_split = (\<lambda>X Y ts rs sh.
         Inr (NDArray [1, 2] (drop 18 (entries X)), NDArray [9, 2] (take 18 (entries X)),
              NDArray [1] (drop 9 (entries Y)), NDArray [9] (take 9 (entries Y)))),
      scaler_fit = (\<lambda>X. Inr (entries X)),
      py_open = (\<lambda>p m v. (Inr (), p # v)),
      pickle_dump = (\<lambda>sc p v. (Inr (), v)),
      scaler_transform = (\<lambda>sc X. Inr (NDArray (shape X) (map2 (-) (entries X) sc))),
      model_fit = (\<lambda>m x y b n vs v. (Inr (), v)),
      model_save = (\<lambda>m p v. (Inr (), p # v)),
      configure = (\<lambda>c v. (None, v))\<rparr>"

definition lib0 :: "(int, int list, path list) lib" where
  "lib0 = sample_lib sample_targets"

text \<open>The same, with a label that is neither 0 nor 1 stored in the file.\<close>

definition lib1 :: "(int, int list, path list) lib" where
  "lib1 = sample_lib (NDArray [10] [0, 1, 2, 0, 1, 0, 0, 1, 1, 0])"

text \<open>A disk that holds the dataset file already.\<close>

definition disk0 :: "path list" where
  "disk0 = [''HIGGS.h5'']"

text \<open>The run of the script with these libraries on that disk: the variables bound at
  its end and its final state.\<close>

definition g0 :: "(int, int list) globals" where
  "g0 = projr (fst (run lib0 disk0))"

definition s0 :: "(int, int list, path list) state" where
  "s0 = snd (run lib0 disk0)"

definition g1 :: "(int, int list) globals" where
  "g1 = projr (fst (run lib1 disk0))"

definition s1 :: "(int, int list, path list) state" where
  "s1 = snd (run lib1 disk0)"

text \<open>No dataset file and no network: \<^verbatim>\<open>wget\<close> exits with status 4 and leaves no file.\<close>

definition offline :: "(int, int list, path list) lib" where
  "offline = lib0\<lparr>subprocess_call := (\<lambda>cmd sh v. (Inr 4, v))\<rparr>"

text \<open>The property of a label vector that its entries are 0 or 1.\<close>

definition binary_labels :: "int ndarray \<Rightarrow> bool" where
  "binary_labels Y = list_all (\<lambda>t. t = 0 \<or> t = 1) (entries Y)"

subsection \<open>The standardizer\<close>








subsection \<open>A sample environment with the standardizer\<close>






section \<open>Sequencing laws\<close>

lemma and_then_return: "and_then (return r) k = k r"
  by (rule ext) (simp add: and_then_def return_def)

lemma and_then_assoc:
  "and_then (and_then p k) q = and_then p (\<lambda>r. and_then (k r) q)"
  by (rule ext) (simp add: and_then_def split: prod.splits sum.splits)

lemmas cell_defs = read_out_def read_dataset_def build_shallow_def build_deep_def
  split_data_def prepare_preprocessing_def model_add_def configured_def

section \<open>The steps of any run\<close>

lemma emits_call: "emits (call c f) (\<lambda>v. conforms [step_of c])"
  by (auto simp: emits_def call_def conforms_def split: prod.splits sum.splits)

lemma emits_return: "emits (return x) (\<lambda>v. conforms [])"
  by (auto simp: emits_def return_def conforms_def)

lemma conforms_append:
  assumes "conforms ws (Inr x) es" and "conforms ws' r es'"
  shows "conforms (ws @ ws') r (es @ es')"
proof (cases r)
  case (Inr y)
  with assms show ?thesis by (auto simp: conforms_def replicate_add)
next
  case (Inl e)
  with assms obtain n where n: "n < length ws'" "map (step_of \<circ> fst) es' = take (Suc n) ws'"
    "map snd es' = replicate n None @ [Some e]"
    by (auto simp: conforms_def)
  from assms have a: "map (step_of \<circ> fst) es = ws" "map snd es = replicate (length ws) None"
    by (auto simp: conforms_def)
  have "length ws + n < length (ws @ ws')" using n by simp
  moreover have "map (step_of \<circ> fst) (es @ es') = take (Suc (length ws + n)) (ws @ ws')"
    using a n by simp
  moreover have "map snd (es @ es') = replicate (length ws + n) None @ [Some e]"
    using a n by (simp add: replicate_add)
  ultimately show ?thesis unfolding conforms_def Inl by (auto intro!: exI[of _ "length ws + n"])
qed

lemma conforms_raise:
  assumes "conforms ws (Inl e) es"
  shows "conforms (ws @ ws') (Inl e) es"
proof -
  from assms obtain n where n: "n < length ws" "map (step_of \<circ> fst) es = take (Suc n) ws"
    "map snd es = replicate n None @ [Some e]"
    by (auto simp: conforms_def)
  then have "n < length (ws @ ws')" "map (step_of \<circ> fst) es = take (Suc n) (ws @ ws')"
    by simp_all
  with n(3) show ?thesis unfolding conforms_def by auto
qed

lemma emits_and_then:
  assumes "emits p (\<lambda>v. conforms (ws v))" and "\<And>x. emits (k x) (\<lambda>v. conforms ws')"
  shows "emits (and_then p k) (\<lambda>v. conforms (ws v @ ws'))"
  unfolding emits_def
proof (intro allI impI)
  fix s r s'
  assume run: "and_then p k s = (r, s')"
  obtain r1 s1 where p: "p s = (r1, s1)" by (cases "p s")
  with assms(1) obtain es where es: "trace s1 = trace s @ es" "conforms (ws (env s)) r1 es"
    unfolding emits_def by blast
  show "\<exists>es. trace s' = trace s @ es \<and> conforms (ws (env s) @ ws') r es"
  proof (cases r1)
    case (Inl e)
    with run p have "r = Inl e" "s' = s1" by (auto simp: and_then_def)
    with es Inl show ?thesis by (auto intro: conforms_raise)
  next
    case (Inr x)
    with run p have "k x s1 = (r, s')" by (auto simp: and_then_def)
    with assms(2) obtain es' where es': "trace s' = trace s1 @ es'" "conforms ws' r es'"
      unfolding emits_def by blast
    with es Inr show ?thesis by (auto intro: conforms_append)
  qed
qed

lemma emits_call_seq:
  assumes "step_of c = w" and "\<And>x. emits (k x) (\<lambda>v. conforms ws)"
  shows "emits (and_then (call c f) k) (\<lambda>v. conforms (w # ws))"
  using emits_and_then[OF emits_call assms(2), of c f] assms(1) by simp

lemma emits_case_prod:
  assumes "\<And>a b. emits (f a b) Q"
  shows "emits (case x of (a, b) \<Rightarrow> f a b) Q"
  using assms by (cases x) simp


lemma emits_download:
  "emits (download L)
     (\<lambda>v. conforms (if os_path_exists L ''HIGGS.h5'' v then [Check_file] else [Check_file, Download]))"
  unfolding emits_def download_def
  by (auto simp: and_then_def call_def return_def conforms_def split: prod.splits sum.splits if_splits)

lemma emits_HIGGS_train:
  "emits (HIGGS_train L) (\<lambda>v. conforms (workflow (os_path_exists L ''HIGGS.h5'' v)))"
  unfolding HIGGS_train_def workflow_def
  apply (rule emits_and_then)
   apply (rule emits_download)
  apply (simp add: cell_defs and_then_assoc and_then_return)
  apply ((rule emits_call_seq, simp) | rule emits_return emits_case_prod)+
  done

lemma run_conforms:
  assumes "run L v = (r, s')"
  shows "conforms (workflow (os_path_exists L ''HIGGS.h5'' v)) r (trace s')"
  using emits_HIGGS_train[of L] assms unfolding emits_def run_def by fastforce

lemma conforms_prefix:
  assumes "conforms ws r es"
  shows "steps_of es = take (length es) ws"
proof (cases r)
  case (Inr x)
  with assms have "map (step_of \<circ> fst) es = ws" by (simp add: conforms_def)
  then show ?thesis by (metis steps_of_def length_map order_refl take_all)
next
  case (Inl e)
  with assms obtain n where n: "n < length ws" "map (step_of \<circ> fst) es = take (Suc n) ws"
    by (auto simp: conforms_def)
  then have "length es = Suc n" by (metis length_map length_take min.absorb2 Suc_leI)
  with n show ?thesis by (simp add: steps_of_def)
qed

section \<open>Saving follows training in any run\<close>













section \<open>Runs that reach the end\<close>

lemma and_then_call_Inr:
  "(and_then (call c f) k s = (Inr y, s')) =
     (\<exists>x v. f (env s) = (Inr x, v) \<and> k x \<lparr>env = v, trace = trace s @ [(c, None)]\<rparr> = (Inr y, s'))"
  by (auto simp: and_then_def call_def split: prod.splits sum.splits)

lemma return_Inr: "(return x s = (Inr y, s')) = (y = x \<and> s' = s)"
  by (auto simp: return_def)

lemma pure_Inr: "(pure r v = (Inr x, v')) = (r = Inr x \<and> v' = v)"
  by (auto simp: pure_def)

lemma and_then_configured_Inr:
  "(and_then (configured L c r) k s = (Inr y, s')) =
     (\<exists>v. configure L c (env s) = (None, v) \<and>
        k r \<lparr>env = v, trace = trace s @ [(c, None)]\<rparr> = (Inr y, s'))"
  by (auto simp: and_then_def call_def configured_def split: prod.splits sum.splits option.splits)

lemmas Inr_simps = and_then_assoc and_then_return and_then_configured_Inr and_then_call_Inr
  pure_Inr return_Inr

lemma download_Inr:
  "(and_then (download L) k s = (Inr y, s')) =
     (\<exists>v'. (if os_path_exists L ''HIGGS.h5'' (env s) then v' = env s
             else \<exists>x. subprocess_call L wget_command True (env s) = (Inr x, v')) \<and>
        k () \<lparr>env = v', trace = trace s @
          (if os_path_exists L ''HIGGS.h5'' (env s) then [(Os_path_exists ''HIGGS.h5'', None)]
           else [(Os_path_exists ''HIGGS.h5'', None), (Subprocess_call wget_command True, None)])\<rparr>
          = (Inr y, s'))"
  by (auto simp: download_def and_then_def call_def return_def split: prod.splits sum.splits)

lemma read_out_Inr:
  "(and_then (read_out L) k s = (Inr y, s')) =
     (\<exists>v1 v2 X v3 v4 Y v5.
        h5py_File L ''HIGGS.h5'' (env s) = (Inr (), v1) \<and>
        h5py_getitem L ''HIGGS.h5'' ''features'' v1 = (Inr (), v2) \<and>
        np_array L ''HIGGS.h5'' ''features'' v2 = (Inr X, v3) \<and>
        h5py_getitem L ''HIGGS.h5'' ''targets'' v3 = (Inr (), v4) \<and>
        np_array L ''HIGGS.h5'' ''targets'' v4 = (Inr Y, v5) \<and>
        k (X, Y) \<lparr>env = v5, trace = trace s @
          [(H5py_File ''HIGGS.h5'', None),
           (H5py_getitem ''HIGGS.h5'' ''features'', None), (Np_array ''HIGGS.h5'' ''features'', None),
           (H5py_getitem ''HIGGS.h5'' ''targets'', None), (Np_array ''HIGGS.h5'' ''targets'', None)]\<rparr>
          = (Inr y, s'))"
  unfolding read_out_def read_dataset_def by (simp add: Inr_simps)

lemma build_shallow_Inr:
  "(and_then (build_shallow L X) k s = (Inr y, s')) =
     (\<exists>v1 d v2 v3 v4.
        configure L Sequential_init (env s) = (None, v1) \<and>
        shape_getitem (shape X) 1 = Inr d \<and>
        configure L (Model_add (shallow_stack d 0)
          (Dense 1000 ''glorot_normal'' ''tanh'' (Some d))) v1 = (None, v2) \<and>
        configure L (Model_add (shallow_stack d 1)
          (Dense 1 ''glorot_uniform'' ''sigmoid'' None)) v2 = (None, v3) \<and>
        configure L (Model_summary (shallow_stack d 2)) v3 = (None, v4) \<and>
        k (shallow_stack d 2)
          \<lparr>env = v4, trace = trace s @
            [(Sequential_init, None), (Shape_getitem (shape X) 1, None),
             (Model_add (shallow_stack d 0) (Dense 1000 ''glorot_normal'' ''tanh'' (Some d)), None),
             (Model_add (shallow_stack d 1) (Dense 1 ''glorot_uniform'' ''sigmoid'' None), None),
             (Model_summary (shallow_stack d 2), None)]\<rparr>
          = (Inr y, s'))"
  unfolding build_shallow_def model_add_def by (simp add: Inr_simps shallow_stack_def)

lemma build_deep_Inr:
  "(and_then (build_deep L X) k s = (Inr y, s')) =
     (\<exists>v1 d v2 v3 v4 v5 v6 v7 v8.
        configure L Sequential_init (env s) = (None, v1) \<and>
        shape_getitem (shape X) 1 = Inr d \<and>
        configure L (Model_add (deep_stack d 0)
          (Dense 300 ''glorot_normal'' ''relu'' (Some d))) v1 = (None, v2) \<and>
        configure L (Model_add (deep_stack d 1)
          (Dense 300 ''glorot_normal'' ''relu'' None)) v2 = (None, v3) \<and>
        configure L (Model_add (deep_stack d 2)
          (Dense 300 ''glorot_normal'' ''relu'' None)) v3 = (None, v4) \<and>
        configure L (Model_add (deep_stack d 3)
          (Dense 300 ''glorot_normal'' ''relu'' None)) v4 = (None, v5) \<and>
        configure L (Model_add (deep_stack d 4)
          (Dense 300 ''glorot_normal'' ''relu'' None)) v5 = (None, v6) \<and>
        configure L (Model_add (deep_stack d 5)
          (Dense 1 ''glorot_uniform'' ''sigmoid'' None)) v6 = (None, v7) \<and>
        configure L (Model_summary (deep_stack d 6)) v7 = (None, v8) \<and>
        k (deep_stack d 6)
          \<lparr>env = v8, trace = trace s @
            [(Sequential_init, None), (Shape_getitem (shape X) 1, None),
             (Model_add (deep_stack d 0) (Dense 300 ''glorot_normal'' ''relu'' (Some d)), None),
             (Model_add (deep_stack d 1) (Dense 300 ''glorot_normal'' ''relu'' None), None),
             (Model_add (deep_stack d 2) (Dense 300 ''glorot_normal'' ''relu'' None), None),
             (Model_add (deep_stack d 3) (Dense 300 ''glorot_normal'' ''relu'' None), None),
             (Model_add (deep_stack d 4) (Dense 300 ''glorot_normal'' ''relu'' None), None),
             (Model_add (deep_stack d 5) (Dense 1 ''glorot_uniform'' ''sigmoid'' None), None),
             (Model_summary (deep_stack d 6), None)]\<rparr>
          = (Inr y, s'))"
  unfolding build_deep_def model_add_def by (simp add: Inr_simps deep_stack_def)

lemma compile_models_Inr:
  "(and_then (compile_models L [a, b]) k s = (Inr y, s')) =
     (\<exists>v1 v2.
        configure L (Model_compile a ''binary_crossentropy'' ''nadam'' [''accuracy''])
          (env s) = (None, v1) \<and>
        configure L (Model_compile b ''binary_crossentropy'' ''nadam'' [''accuracy''])
          v1 = (None, v2) \<and>
        k [compile a ''binary_crossentropy'' ''nadam'' [''accuracy''],
           compile b ''binary_crossentropy'' ''nadam'' [''accuracy'']]
          \<lparr>env = v2, trace = trace s @
            [(Model_compile a ''binary_crossentropy'' ''nadam'' [''accuracy''], None),
             (Model_compile b ''binary_crossentropy'' ''nadam'' [''accuracy''], None)]\<rparr>
          = (Inr y, s'))"
  by (simp add: Inr_simps)

lemma split_data_Inr:
  "(and_then (split_data L X Y) k s = (Inr y, s')) =
     (\<exists>r. train_test_split L X Y (9 / 10) 1234 True = Inr r \<and>
        k r \<lparr>env = env s, trace = trace s @
          [(Train_test_split X Y (9 / 10) 1234 True, None)]\<rparr> = (Inr y, s'))"
  unfolding split_data_def by (simp add: Inr_simps)

lemma prepare_preprocessing_Inr:
  "(and_then (prepare_preprocessing L X) k s = (Inr y, s')) =
     (\<exists>v0 sc v1 v2.
        configure L StandardScaler_init (env s) = (None, v0) \<and>
        scaler_fit L X = Inr sc \<and>
        py_open L ''HIGGS_preprocessing.pickle'' ''wb'' v0 = (Inr (), v1) \<and>
        pickle_dump L sc ''HIGGS_preprocessing.pickle'' v1 = (Inr (), v2) \<and>
        k sc \<lparr>env = v2, trace = trace s @
          [(StandardScaler_init, None), (Scaler_fit X, None),
           (Py_open ''HIGGS_preprocessing.pickle'' ''wb'', None),
           (Pickle_dump sc ''HIGGS_preprocessing.pickle'', None)]\<rparr> = (Inr y, s'))"
  unfolding prepare_preprocessing_def by (simp add: Inr_simps)

lemma train_models_Inr:
  "(and_then (train_models L sc X Y [(a, na), (b, nb)]) k s = (Inr y, s')) =
     (\<exists>x v1 v2 x' v3 v4.
        scaler_transform L sc X = Inr x \<and>
        model_fit L a x Y 100 10 (1 / 4) (env s) = (Inr (), v1) \<and>
        model_save L a na v1 = (Inr (), v2) \<and>
        scaler_transform L sc X = Inr x' \<and>
        model_fit L b x' Y 100 10 (1 / 4) v2 = (Inr (), v3) \<and>
        model_save L b nb v3 = (Inr (), v4) \<and>
        k () \<lparr>env = v4, trace = trace s @
          [(Scaler_transform sc X, None), (Model_fit a x Y 100 10 (1 / 4), None),
           (Model_save a na, None),
           (Scaler_transform sc X, None), (Model_fit b x' Y 100 10 (1 / 4), None),
           (Model_save b nb, None)]\<rparr> = (Inr y, s'))"
  by (simp add: Inr_simps)

lemmas cell_Inr = download_Inr read_out_Inr build_shallow_Inr build_deep_Inr compile_models_Inr
  split_data_Inr prepare_preprocessing_Inr train_models_Inr return_Inr

lemma complete_run:
  assumes "run L v = (Inr g, s')"
  shows "\<exists>d x.
     shape_getitem (shape (inputs g)) 1 = Inr d \<and>
     model_shallow g =
       compile (shallow_stack d 2) ''binary_crossentropy'' ''nadam'' [''accuracy''] \<and>
     model_deep g =
       compile (deep_stack d 6) ''binary_crossentropy'' ''nadam'' [''accuracy''] \<and>
     train_test_split L (inputs g) (targets g) (9 / 10) 1234 True =
       Inr (inputs_train g, inputs_test g, targets_train g, targets_test g) \<and>
     scaler_fit L (inputs_train g) = Inr (preprocessing_input g) \<and>
     scaler_transform L (preprocessing_input g) (inputs_train g) = Inr x \<and>
     calls_at Read_array (trace s') =
       [(Np_array ''HIGGS.h5'' ''features'', None), (Np_array ''HIGGS.h5'' ''targets'', None)] \<and>
     calls_at New_model (trace s') = [(Sequential_init, None), (Sequential_init, None)] \<and>
     calls_at Compile (trace s') =
       [(Model_compile (shallow_stack d 2) ''binary_crossentropy'' ''nadam'' [''accuracy''], None),
        (Model_compile (deep_stack d 6) ''binary_crossentropy'' ''nadam'' [''accuracy''], None)] \<and>
     calls_at Split (trace s') =
       [(Train_test_split (inputs g) (targets g) (9 / 10) 1234 True, None)] \<and>
     calls_at Fit_scaler (trace s') = [(Scaler_fit (inputs_train g), None)] \<and>
     calls_at Open_output (trace s') = [(Py_open ''HIGGS_preprocessing.pickle'' ''wb'', None)] \<and>
     calls_at Dump_scaler (trace s') =
       [(Pickle_dump (preprocessing_input g) ''HIGGS_preprocessing.pickle'', None)] \<and>
     calls_at Transform (trace s') =
       [(Scaler_transform (preprocessing_input g) (inputs_train g), None),
        (Scaler_transform (preprocessing_input g) (inputs_train g), None)] \<and>
     calls_at Train (trace s') =
       [(Model_fit (model_shallow g) x (targets_train g) 100 10 (1 / 4), None),
        (Model_fit (model_deep g) x (targets_train g) 100 10 (1 / 4), None)] \<and>
     calls_at Save (trace s') =
       [(Model_save (model_shallow g) ''HIGGS_shallow.h5'', None),
        (Model_save (model_deep g) ''HIGGS_deep.h5'', None)]"
  using assms unfolding run_def HIGGS_train_def
  apply (simp add: cell_Inr del: train_models.simps compile_models.simps)
  apply (elim exE conjE)
  apply (simp add: calls_at_def)
  done

lemma loaded_arrays:
  assumes "run L v = (Inr g, s')"
  shows "(\<exists>va vb. np_array L ''HIGGS.h5'' ''features'' va = (Inr (inputs g), vb)) \<and>
     (\<exists>va vb. np_array L ''HIGGS.h5'' ''targets'' va = (Inr (targets g), vb))"
  using assms unfolding run_def HIGGS_train_def
  apply (simp add: cell_Inr del: train_models.simps compile_models.simps)
  apply (elim exE conjE)
  apply simp
  apply (intro conjI exI)
   apply assumption+
  done

section \<open>The held-out subsets do not reach the rest of the script\<close>

lemma train_models_with_held_out:
  "train_models (with_held_out f h L) sc X Y ps = train_models L sc X Y ps"
  by (induction ps) (auto simp: with_held_out_def)

lemma held_out_irrelevant:
  "HIGGS_train (with_held_out f h L) =
     and_then (HIGGS_train L)
       (\<lambda>g. return (g\<lparr>inputs_test := f (inputs_test g), targets_test := h (targets_test g)\<rparr>))"
proof -
  have fields [simp]:
    "os_path_exists (with_held_out f h L) = os_path_exists L"
    "subprocess_call (with_held_out f h L) = subprocess_call L"
    "h5py_File (with_held_out f h L) = h5py_File L"
    "h5py_getitem (with_held_out f h L) = h5py_getitem L"
    "np_array (with_held_out f h L) = np_array L"
    "scaler_fit (with_held_out f h L) = scaler_fit L"
    "py_open (with_held_out f h L) = py_open L"
    "pickle_dump (with_held_out f h L) = pickle_dump L"
    "configure (with_held_out f h L) = configure L"
    by (simp_all add: with_held_out_def)
  have [simp]: "configured (with_held_out f h L) c r = configured L c r" for c and r :: 'r
    by (simp add: configured_def)
  have [simp]: "download (with_held_out f h L) = download L"
    "read_out (with_held_out f h L) = read_out L"
    "prepare_preprocessing (with_held_out f h L) X = prepare_preprocessing L X"
    "build_shallow (with_held_out f h L) X = build_shallow L X"
    "build_deep (with_held_out f h L) X = build_deep L X" for X
    by (simp_all add: download_def read_out_def read_dataset_def prepare_preprocessing_def
        build_shallow_def build_deep_def model_add_def cong: if_cong)
  have [simp]: "compile_models (with_held_out f h L) ms = compile_models L ms" for ms
    by (induction ms) simp_all
  have [simp]: "split_data (with_held_out f h L) X Y =
      and_then (split_data L X Y) (\<lambda>(a, b, c, d). return (a, f b, c, h d))" for X Y
    by (rule ext) (auto simp: split_data_def with_held_out_def and_then_def call_def return_def
        pure_def split: prod.splits sum.splits)
  show ?thesis
    unfolding HIGGS_train_def
    by (simp add: train_models_with_held_out and_then_assoc and_then_return split_def
        del: train_models.simps compile_models.simps)
qed

lemma run_with_held_out:
  assumes "run L v = (Inr g, s')"
  shows "run (with_held_out f h L) v =
     (Inr (g\<lparr>inputs_test := f (inputs_test g), targets_test := h (targets_test g)\<rparr>), s')"
  using assms by (simp add: run_def held_out_irrelevant and_then_def return_def)

section \<open>The sample runs\<close>

lemma sample_run:
  "\<exists>g s'. run (sample_lib labels) disk0 = (Inr g, s')"
  unfolding run_def HIGGS_train_def
  by (simp add: cell_Inr sample_lib_def disk0_def sample_features_def shape_getitem_def
      del: train_models.simps compile_models.simps)

lemma run0: "run lib0 disk0 = (Inr g0, s0)"
  using sample_run[of sample_targets] unfolding lib0_def[symmetric]
  by (auto simp: g0_def s0_def)

lemma run1: "run lib1 disk0 = (Inr g1, s1)"
  using sample_run[of "NDArray [10] [0, 1, 2, 0, 1, 0, 0, 1, 1, 0]"] unfolding lib1_def[symmetric]
  by (auto simp: g1_def s1_def)

lemma present0: "os_path_exists lib0 ''HIGGS.h5'' disk0"
  by (simp add: lib0_def sample_lib_def disk0_def)

lemma values0:
  "inputs g0 = sample_features" "targets g0 = sample_targets"
  "inputs_train g0 = NDArray [1, 2] [19, 20]" "targets_train g0 = NDArray [1] [0]"
  "inputs_test g0 = NDArray [9, 2] [1, 2, 3, 4, 5, 6, 7, 8, 9, 10, 11, 12, 13, 14, 15, 16, 17, 18]"
  "targets_test g0 = NDArray [9] [0, 1, 1, 0, 1, 0, 0, 1, 1]"
  "preprocessing_input g0 = [19, 20]"
proof -
  from loaded_arrays[OF run0] show i: "inputs g0 = sample_features"
    and t: "targets g0 = sample_targets"
    by (auto simp: lib0_def sample_lib_def)
  from complete_run[OF run0] have
    "train_test_split lib0 (inputs g0) (targets g0) (9 / 10) 1234 True =
       Inr (inputs_train g0, inputs_test g0, targets_train g0, targets_test g0)"
    and f: "scaler_fit lib0 (inputs_train g0) = Inr (preprocessing_input g0)"
    by blast+
  then show tr: "inputs_train g0 = NDArray [1, 2] [19, 20]"
    and "targets_train g0 = NDArray [1] [0]"
    and "inputs_test g0 =
      NDArray [9, 2] [1, 2, 3, 4, 5, 6, 7, 8, 9, 10, 11, 12, 13, 14, 15, 16, 17, 18]"
    and "targets_test g0 = NDArray [9] [0, 1, 1, 0, 1, 0, 0, 1, 1]"
    unfolding i t
    by (simp_all add: lib0_def sample_lib_def sample_features_def sample_targets_def)
  from f show "preprocessing_input g0 = [19, 20]"
    unfolding tr by (simp add: lib0_def sample_lib_def)
qed

lemma offline_run:
  "run offline [] =
     (Inl (LibraryError ''IOError''),
      \<lparr>env = [], trace =
         [(Os_path_exists ''HIGGS.h5'', None), (Subprocess_call wget_command True, None),
          (H5py_File ''HIGGS.h5'', Some (LibraryError ''IOError''))]\<rparr>)"
  unfolding run_def HIGGS_train_def download_def read_out_def
  by (simp add: and_then_def call_def return_def offline_def lib0_def sample_lib_def
      del: train_models.simps compile_models.simps)

section \<open>Order of steps\<close>

lemma each_after_take: "each_after a b ws \<Longrightarrow> each_after a b (take n ws)"
proof (induction ws arbitrary: n)
  case Nil
  then show ?case by simp
next
  case (Cons w ws)
  then show ?case by (cases n) (auto split: if_splits)
qed

lemma dropWhile_take_subset: "set (dropWhile P (take n ws)) \<subseteq> set (dropWhile P ws)"
proof (induction ws arbitrary: n)
  case Nil
  show ?case by simp
next
  case (Cons w ws)
  show ?case
  proof (cases n)
    case 0
    then show ?thesis by simp
  next
    case (Suc m)
    with Cons[of m] show ?thesis by (auto dest: in_set_takeD)
  qed
qed

lemma none_after_take: "none_after a b ws \<Longrightarrow> none_after a b (take n ws)"
  using dropWhile_take_subset[of "\<lambda>w. w \<noteq> b" n ws] by (auto simp: none_after_def)

lemma run_steps:
  assumes "run L v = (r, s')"
  shows "steps_of (trace s') = take (length (trace s')) (workflow (os_path_exists L ''HIGGS.h5'' v))"
  using conforms_prefix[OF run_conforms[OF assms]] .

lemma layers_compile: "layers (compile m lo opt ms) = layers m"
  by (simp add: compile_def)

section \<open>The claims\<close>

text \<open>
  C2. Fitting the standardizer reads only the training subset. In a run that reaches the
  end, the one call of \<^verbatim>\<open>fit\<close> on the scaler receives \<^verbatim>\<open>inputs_train\<close>, the first
  component of what the split returned; the fitted scaler, which is also the object
  pickled, is the library's function of that array alone; and replacing the held-out
  inputs and targets by anything (\<open>f\<close>, \<open>h\<close>) leaves the run complete with the same
  training subset and the same fitted scaler.
\<close>

theorem scaler_fitted_on_training_subset:
  assumes "run L v = (Inr g, s')"
  shows "train_test_split L (inputs g) (targets g) (9 / 10) 1234 True =
       Inr (inputs_train g, inputs_test g, targets_train g, targets_test g) \<and>
     calls_at Fit_scaler (trace s') = [(Scaler_fit (inputs_train g), None)] \<and>
     scaler_fit L (inputs_train g) = Inr (preprocessing_input g) \<and>
     calls_at Dump_scaler (trace s') =
       [(Pickle_dump (preprocessing_input g) ''HIGGS_preprocessing.pickle'', None)] \<and>
     (\<exists>g'. fst (run (with_held_out f h L) v) = Inr g' \<and>
        inputs_test g' = f (inputs_test g) \<and> targets_test g' = h (targets_test g) \<and>
        inputs_train g' = inputs_train g \<and> preprocessing_input g' = preprocessing_input g)"
  using complete_run[OF assms] run_with_held_out[OF assms, of f h] by auto

theorem scaler_fitted_on_training_subset_witness:
  "run lib0 disk0 = (Inr g0, s0) \<and>
   inputs_train g0 = NDArray [1, 2] [19, 20] \<and>
   calls_at Fit_scaler (trace s0) = [(Scaler_fit (inputs_train g0), None)] \<and>
   scaler_fit lib0 (inputs_train g0) = Inr (preprocessing_input g0) \<and>
   preprocessing_input g0 = [19, 20] \<and>
   calls_at Dump_scaler (trace s0) =
     [(Pickle_dump (preprocessing_input g0) ''HIGGS_preprocessing.pickle'', None)] \<and>
   map_sum id preprocessing_input
     (fst (run (with_held_out (\<lambda>X. NDArray [] []) (\<lambda>Y. NDArray [] []) lib0) disk0)) =
     Inr [19, 20]"
proof -
  note t = scaler_fitted_on_training_subset[OF run0, of "\<lambda>X. NDArray [] []" "\<lambda>Y. NDArray [] []"]
  from t obtain g' where
    "fst (run (with_held_out (\<lambda>X. NDArray [] []) (\<lambda>Y. NDArray [] []) lib0) disk0) = Inr g'"
    "preprocessing_input g' = preprocessing_input g0"
    by blast
  then have "map_sum id preprocessing_input
     (fst (run (with_held_out (\<lambda>X. NDArray [] []) (\<lambda>Y. NDArray [] []) lib0) disk0)) =
     Inr [19, 20]"
    by (simp add: values0)
  with t run0 values0 show ?thesis by simp
qed

text \<open>
  C3. Two architectures are constructed, both stacks of dense layers. In a run that
  reaches the end, \<^verbatim>\<open>Sequential()\<close> is called exactly twice; the shallow model has the
  hidden layer of width 1000 with tanh and the output layer of width 1 with sigmoid; the
  deep model has five hidden layers of width 300 with relu and the same output layer;
  and the input dimension of each network, given to its first layer, is \<open>d\<close>, the second
  component of the shape of the feature array read from the file.
\<close>

theorem two_architectures:
  assumes "run L v = (Inr g, s')"
  shows "\<exists>d. shape_getitem (shape (inputs g)) 1 = Inr d \<and>
     (\<exists>va vb. np_array L ''HIGGS.h5'' ''features'' va = (Inr (inputs g), vb)) \<and>
     calls_at New_model (trace s') = [(Sequential_init, None), (Sequential_init, None)] \<and>
     layers (model_shallow g) =
       [Dense 1000 ''glorot_normal'' ''tanh'' (Some d),
        Dense 1 ''glorot_uniform'' ''sigmoid'' None] \<and>
     layers (model_deep g) =
       [Dense 300 ''glorot_normal'' ''relu'' (Some d),
        Dense 300 ''glorot_normal'' ''relu'' None,
        Dense 300 ''glorot_normal'' ''relu'' None,
        Dense 300 ''glorot_normal'' ''relu'' None,
        Dense 300 ''glorot_normal'' ''relu'' None,
        Dense 1 ''glorot_uniform'' ''sigmoid'' None]"
proof -
  from complete_run[OF assms] obtain d where d: "shape_getitem (shape (inputs g)) 1 = Inr d"
    "model_shallow g =
       compile (shallow_stack d 2) ''binary_crossentropy'' ''nadam'' [''accuracy'']"
    "model_deep g = compile (deep_stack d 6) ''binary_crossentropy'' ''nadam'' [''accuracy'']"
    "calls_at New_model (trace s') = [(Sequential_init, None), (Sequential_init, None)]"
    by blast
  have "layers (shallow_stack d 2) =
      [Dense 1000 ''glorot_normal'' ''tanh'' (Some d), Dense 1 ''glorot_uniform'' ''sigmoid'' None]"
    by (simp add: shallow_stack_def add_def Sequential_def)
  moreover have "layers (deep_stack d 6) =
      [Dense 300 ''glorot_normal'' ''relu'' (Some d),
       Dense 300 ''glorot_normal'' ''relu'' None,
       Dense 300 ''glorot_normal'' ''relu'' None,
       Dense 300 ''glorot_normal'' ''relu'' None,
       Dense 300 ''glorot_normal'' ''relu'' None,
       Dense 1 ''glorot_uniform'' ''sigmoid'' None]"
    by (simp add: deep_stack_def add_def Sequential_def)
  ultimately show ?thesis
    using d loaded_arrays[OF assms] by (auto simp: layers_compile)
qed

theorem two_architectures_witness:
  "run lib0 disk0 = (Inr g0, s0) \<and>
   inputs g0 = NDArray [10, 2] [1, 2, 3, 4, 5, 6, 7, 8, 9, 10, 11, 12, 13, 14, 15, 16, 17, 18, 19, 20] \<and>
   calls_at New_model (trace s0) = [(Sequential_init, None), (Sequential_init, None)] \<and>
   layers (model_shallow g0) =
     [Dense 1000 ''glorot_normal'' ''tanh'' (Some 2),
      Dense 1 ''glorot_uniform'' ''sigmoid'' None] \<and>
   layers (model_deep g0) =
     [Dense 300 ''glorot_normal'' ''relu'' (Some 2),
      Dense 300 ''glorot_normal'' ''relu'' None,
      Dense 300 ''glorot_normal'' ''relu'' None,
      Dense 300 ''glorot_normal'' ''relu'' None,
      Dense 300 ''glorot_normal'' ''relu'' None,
      Dense 1 ''glorot_uniform'' ''sigmoid'' None]"
proof -
  from two_architectures[OF run0] obtain d where d:
    "shape_getitem (shape (inputs g0)) 1 = Inr d"
    "calls_at New_model (trace s0) = [(Sequential_init, None), (Sequential_init, None)]"
    "layers (model_shallow g0) =
       [Dense 1000 ''glorot_normal'' ''tanh'' (Some d),
        Dense 1 ''glorot_uniform'' ''sigmoid'' None]"
    "layers (model_deep g0) =
       [Dense 300 ''glorot_normal'' ''relu'' (Some d),
        Dense 300 ''glorot_normal'' ''relu'' None,
        Dense 300 ''glorot_normal'' ''relu'' None,
        Dense 300 ''glorot_normal'' ''relu'' None,
        Dense 300 ''glorot_normal'' ''relu'' None,
        Dense 1 ''glorot_uniform'' ''sigmoid'' None]"
    by blast
  from d(1) have "d = 2"
    by (simp add: values0 sample_features_def shape_getitem_def)
  with d run0 values0(1) show ?thesis
    by (simp add: sample_features_def)
qed

text \<open>
  C4. Each classifier is trained by its own call of \<^verbatim>\<open>fit\<close>, with batch size 100, 10
  epochs and a validation split of 0.25, on the transformed training inputs and the
  training targets that the split returned; both models were compiled with the binary
  cross-entropy loss and the nadam optimizer. The held-out subset reaches no call:
  replacing it by anything leaves the trace, with the arguments of every call, and the
  final environment as they were.
\<close>

theorem training_configuration:
  assumes "run L v = (Inr g, s')"
  shows "\<exists>x. scaler_transform L (preprocessing_input g) (inputs_train g) = Inr x \<and>
     calls_at Train (trace s') =
       [(Model_fit (model_shallow g) x (targets_train g) 100 10 (1 / 4), None),
        (Model_fit (model_deep g) x (targets_train g) 100 10 (1 / 4), None)] \<and>
     loss (model_shallow g) = Some ''binary_crossentropy'' \<and>
     optimizer (model_shallow g) = Some ''nadam'' \<and>
     loss (model_deep g) = Some ''binary_crossentropy'' \<and>
     optimizer (model_deep g) = Some ''nadam'' \<and>
     train_test_split L (inputs g) (targets g) (9 / 10) 1234 True =
       Inr (inputs_train g, inputs_test g, targets_train g, targets_test g) \<and>
     snd (run (with_held_out f h L) v) = s'"
  using complete_run[OF assms] run_with_held_out[OF assms, of f h]
  by (auto simp: compile_def)

theorem training_configuration_witness:
  "run lib0 disk0 = (Inr g0, s0) \<and>
   calls_at Train (trace s0) =
     [(Model_fit (model_shallow g0) (NDArray [1, 2] [0, 0]) (NDArray [1] [0]) 100 10 (1 / 4), None),
      (Model_fit (model_deep g0) (NDArray [1, 2] [0, 0]) (NDArray [1] [0]) 100 10 (1 / 4), None)] \<and>
   loss (model_shallow g0) = Some ''binary_crossentropy'' \<and>
   optimizer (model_deep g0) = Some ''nadam'' \<and>
   snd (run (with_held_out (\<lambda>X. NDArray [] []) (\<lambda>Y. NDArray [] []) lib0) disk0) = s0"
proof -
  from training_configuration[OF run0, of "\<lambda>X. NDArray [] []" "\<lambda>Y. NDArray [] []"]
  obtain x where x:
    "scaler_transform lib0 (preprocessing_input g0) (inputs_train g0) = Inr x"
    "calls_at Train (trace s0) =
       [(Model_fit (model_shallow g0) x (targets_train g0) 100 10 (1 / 4), None),
        (Model_fit (model_deep g0) x (targets_train g0) 100 10 (1 / 4), None)]"
    "loss (model_shallow g0) = Some ''binary_crossentropy''"
    "optimizer (model_deep g0) = Some ''nadam''"
    "snd (run (with_held_out (\<lambda>X. NDArray [] []) (\<lambda>Y. NDArray [] []) lib0) disk0) = s0"
    by blast
  from x(1) have "x = NDArray [1, 2] [0, 0]"
    by (simp add: values0 lib0_def sample_lib_def)
  with x run0 show ?thesis by (simp add: values0)
qed



text \<open>
  C7, as the code has it. The steps of every run are an initial segment of the notebook's
  order: check for the dataset file and download it if absent, read inputs and targets,
  construct the shallow and the deep model, compile both, split, fit and persist the
  scaler, then transform, train and save for each model. So both architectures are
  constructed and compiled before the dataset is split and before the scaler is fitted:
  from the split on, no model is created, extended or compiled, and every split comes
  after a compile. The claim as stated, that the architectures are constructed after the
  split and after the fitting of the scaler, fails in the sample run.
\<close>

theorem models_constructed_before_split:
  assumes "run L v = (r, s')"
  shows "steps_of (trace s') =
       take (length (trace s'))
         ((if os_path_exists L ''HIGGS.h5'' v then [Check_file] else [Check_file, Download]) @
          [Open_file, Get_dataset, Read_array, Get_dataset, Read_array,
           New_model, Read_shape, Add_layer, Add_layer, Summary,
           New_model, Read_shape, Add_layer, Add_layer, Add_layer, Add_layer, Add_layer,
           Add_layer, Summary,
           Compile, Compile,
           Split,
           New_scaler, Fit_scaler, Open_output, Dump_scaler,
           Transform, Train, Save, Transform, Train, Save]) \<and>
     none_after New_model Split (steps_of (trace s')) \<and>
     none_after Add_layer Split (steps_of (trace s')) \<and>
     none_after Compile Split (steps_of (trace s')) \<and>
     none_after New_model Fit_scaler (steps_of (trace s')) \<and>
     each_after Split Compile (steps_of (trace s')) \<and>
     each_after Fit_scaler Split (steps_of (trace s')) \<and>
     each_after Train Dump_scaler (steps_of (trace s')) \<and>
     each_after Save Train (steps_of (trace s'))"
proof -
  let ?W = "workflow (os_path_exists L ''HIGGS.h5'' v)"
  have steps: "steps_of (trace s') = take (length (trace s')) ?W"
    by (rule run_steps[OF assms])
  have "none_after New_model Split ?W" "none_after Add_layer Split ?W"
    "none_after Compile Split ?W" "none_after New_model Fit_scaler ?W"
    by (simp_all add: none_after_def workflow_def)
  moreover have "each_after Split Compile ?W" "each_after Fit_scaler Split ?W"
    "each_after Train Dump_scaler ?W" "each_after Save Train ?W"
    by (simp_all add: workflow_def)
  ultimately show ?thesis
    unfolding steps using none_after_take each_after_take
    by (simp add: workflow_def[symmetric])
qed

theorem models_constructed_before_split_witness:
  "run lib0 disk0 = (Inr g0, s0) \<and>
   steps_of (trace s0) =
     [Check_file,
      Open_file, Get_dataset, Read_array, Get_dataset, Read_array,
      New_model, Read_shape, Add_layer, Add_layer, Summary,
      New_model, Read_shape, Add_layer, Add_layer, Add_layer, Add_layer, Add_layer,
      Add_layer, Summary,
      Compile, Compile,
      Split,
      New_scaler, Fit_scaler, Open_output, Dump_scaler,
      Transform, Train, Save, Transform, Train, Save] \<and>
   none_after New_model Split (steps_of (trace s0)) \<and>
   none_after New_model Fit_scaler (steps_of (trace s0)) \<and>
   each_after Split Compile (steps_of (trace s0))"
proof -
  have st: "steps_of (trace s0) =
     [Check_file,
      Open_file, Get_dataset, Read_array, Get_dataset, Read_array,
      New_model, Read_shape, Add_layer, Add_layer, Summary,
      New_model, Read_shape, Add_layer, Add_layer, Add_layer, Add_layer, Add_layer,
      Add_layer, Summary,
      Compile, Compile,
      Split,
      New_scaler, Fit_scaler, Open_output, Dump_scaler,
      Transform, Train, Save, Transform, Train, Save]"
    using run_conforms[OF run0] present0 by (simp add: conforms_def steps_of_def workflow_def)
  from models_constructed_before_split[OF run0]
  have "none_after New_model Split (steps_of (trace s0))"
    "none_after New_model Fit_scaler (steps_of (trace s0))"
    "each_after Split Compile (steps_of (trace s0))"
    by blast+
  with run0 st show ?thesis by blast
qed

text \<open>
  C7, as stated: in the sample run the first model is constructed at the seventh call,
  with no split and no fitting of the scaler before it.
\<close>

theorem models_constructed_after_split_counterexample:
  "run lib0 disk0 = (Inr g0, s0) \<and>
   take 7 (steps_of (trace s0)) =
     [Check_file, Open_file, Get_dataset, Read_array, Get_dataset, Read_array, New_model] \<and>
   \<not> each_after New_model Split (steps_of (trace s0)) \<and>
   \<not> each_after New_model Fit_scaler (steps_of (trace s0))"
proof -
  have "steps_of (trace s0) = workflow True"
    using run_conforms[OF run0] present0 by (simp add: conforms_def steps_of_def)
  with run0 show ?thesis by (simp add: workflow_def)
qed

text \<open>
  C8. Nothing in the script catches an exception. In every run the calls made are an
  initial segment of the workflow; every call but the last returned; the run ends with an
  exception exactly when its last call raised it, which is then the result of the
  script, nothing is called after it and the exit status is not 0; and when no call
  raises, all the steps of the workflow are performed and the exit status is 0.
\<close>

theorem no_error_recovery:
  assumes "run L v = (r, s')"
  shows "steps_of (trace s') =
       take (length (trace s')) (workflow (os_path_exists L ''HIGGS.h5'' v)) \<and>
     (case r of
        Inl e \<Rightarrow>
          map snd (trace s') = replicate (length (trace s') - 1) None @ [Some e] \<and>
          exit_status r \<noteq> 0
      | Inr g \<Rightarrow>
          map snd (trace s') = replicate (length (trace s')) None \<and>
          steps_of (trace s') = workflow (os_path_exists L ''HIGGS.h5'' v) \<and>
          exit_status r = 0)"
proof -
  let ?W = "workflow (os_path_exists L ''HIGGS.h5'' v)"
  have c: "conforms ?W r (trace s')" by (rule run_conforms[OF assms])
  have steps: "steps_of (trace s') = take (length (trace s')) ?W"
    by (rule run_steps[OF assms])
  show ?thesis
  proof (cases r)
    case (Inl e)
    with c obtain n where "map snd (trace s') = replicate n None @ [Some e]"
      by (auto simp: conforms_def)
    moreover from this have "length (trace s') = Suc n"
      by (metis length_map length_append_singleton length_replicate)
    ultimately show ?thesis using steps Inl by (simp add: exit_status_def)
  next
    case (Inr g)
    with c have "map (step_of \<circ> fst) (trace s') = ?W"
      "map snd (trace s') = replicate (length ?W) None"
      by (simp_all add: conforms_def)
    moreover from this have "length (trace s') = length ?W" by (metis length_map)
    ultimately show ?thesis using steps Inr by (simp add: exit_status_def steps_of_def)
  qed
qed

theorem no_error_recovery_witness:
  "run offline [] =
     (Inl (LibraryError ''IOError''),
      \<lparr>env = [], trace =
         [(Os_path_exists ''HIGGS.h5'', None), (Subprocess_call wget_command True, None),
          (H5py_File ''HIGGS.h5'', Some (LibraryError ''IOError''))]\<rparr>) \<and>
   exit_status (Inl (LibraryError ''IOError'') :: exn + (int, int list) globals) \<noteq> 0 \<and>
   run lib0 disk0 = (Inr g0, s0) \<and>
   map snd (trace s0) = replicate (length (trace s0)) None \<and>
   steps_of (trace s0) = workflow True \<and>
   exit_status (Inr g0 :: exn + (int, int list) globals) = 0"
proof -
  have w: "os_path_exists lib0 ''HIGGS.h5'' disk0 = True"
    using present0 by simp
  note a = no_error_recovery[OF offline_run, unfolded sum.case]
  note b = no_error_recovery[OF run0, unfolded w sum.case]
  from a b offline_run run0 show ?thesis by blast
qed

text \<open>
  C9, as the code has it. The target vector of a run is the array that \<^verbatim>\<open>np.array\<close>
  returned for the dataset "targets" of "HIGGS.h5", and it is passed on to the split as
  it is: the script neither checks nor changes its entries, which are 0 or 1 exactly
  when the stored ones are. With a file that stores the label 2, the loaded target
  vector holds 2.
\<close>

theorem targets_as_stored:
  assumes "run L v = (Inr g, s')"
  shows "(\<exists>va vb. np_array L ''HIGGS.h5'' ''targets'' va = (Inr (targets g), vb)) \<and>
     calls_at Read_array (trace s') =
       [(Np_array ''HIGGS.h5'' ''features'', None), (Np_array ''HIGGS.h5'' ''targets'', None)] \<and>
     calls_at Split (trace s') =
       [(Train_test_split (inputs g) (targets g) (9 / 10) 1234 True, None)]"
  using complete_run[OF assms] loaded_arrays[OF assms] by blast

theorem targets_as_stored_witness:
  "run lib0 disk0 = (Inr g0, s0) \<and>
   np_array lib0 ''HIGGS.h5'' ''targets'' disk0 = (Inr (targets g0), disk0) \<and>
   targets g0 = NDArray [10] [0, 1, 1, 0, 1, 0, 0, 1, 1, 0] \<and>
   calls_at Split (trace s0) =
     [(Train_test_split (inputs g0) (targets g0) (9 / 10) 1234 True, None)]"
proof -
  have "np_array lib0 ''HIGGS.h5'' ''targets'' disk0 = (Inr (targets g0), disk0)"
    by (simp add: values0 lib0_def sample_lib_def)
  with targets_as_stored[OF run0] run0 show ?thesis
    by (simp add: values0 sample_targets_def)
qed

text \<open>
  C9, as stated: the file of the second sample library stores the label 2, the run
  reaches its end, and the loaded target vector is not binary.
\<close>

theorem targets_binary_counterexample:
  "run lib1 disk0 = (Inr g1, s1) \<and>
   targets g1 = NDArray [10] [0, 1, 2, 0, 1, 0, 0, 1, 1, 0] \<and>
   \<not> binary_labels (targets g1)"
proof -
  from loaded_arrays[OF run1] obtain va vb where
    "np_array lib1 ''HIGGS.h5'' ''targets'' va = (Inr (targets g1), vb)"
    by blast
  then have "targets g1 = NDArray [10] [0, 1, 2, 0, 1, 0, 0, 1, 1, 0]"
    by (simp add: lib1_def sample_lib_def)
  with run1 show ?thesis by (simp add: binary_labels_def)
qed

text \<open>
  C10. The download runs only when "HIGGS.h5" is absent. If the file exists when the
  script starts, the download cell makes the one call \<^verbatim>\<open>os.path.exists\<close> and leaves the
  environment, and so the file, as it was, and no call of \<^verbatim>\<open>subprocess.call\<close> occurs
  anywhere in the run. A second run of the script is a run from an environment that
  holds the file, so it does not download again.
\<close>

theorem download_only_if_absent:
  assumes "os_path_exists L ''HIGGS.h5'' v" and "run L v = (r, s')"
  shows "download L \<lparr>env = v, trace = t\<rparr> =
       (Inr (), \<lparr>env = v, trace = t @ [(Os_path_exists ''HIGGS.h5'', None)]\<rparr>) \<and>
     calls_at Download (trace s') = []"
proof -
  have d: "download L \<lparr>env = v, trace = t\<rparr> =
      (Inr (), \<lparr>env = v, trace = t @ [(Os_path_exists ''HIGGS.h5'', None)]\<rparr>)"
    using assms(1) by (simp add: download_def and_then_def call_def return_def)
  have "steps_of (trace s') = take (length (trace s')) (workflow True)"
    using run_steps[OF assms(2)] assms(1) by simp
  moreover have "Download \<notin> set (workflow True)"
    by (simp add: workflow_def)
  ultimately have "Download \<notin> set (steps_of (trace s'))"
    by (auto dest: in_set_takeD)
  then have "calls_at Download (trace s') = []"
    by (fastforce simp: calls_at_def steps_of_def filter_empty_conv image_iff)
  with d show ?thesis by simp
qed

theorem download_only_if_absent_witness:
  "os_path_exists lib0 ''HIGGS.h5'' disk0 \<and>
   run lib0 disk0 = (Inr g0, s0) \<and>
   download lib0 \<lparr>env = disk0, trace = []\<rparr> =
     (Inr (), \<lparr>env = disk0, trace = [(Os_path_exists ''HIGGS.h5'', None)]\<rparr>) \<and>
   calls_at Download (trace s0) = []"
  using download_only_if_absent[OF present0 run0, of "[]"] present0 run0 by simp

section \<open>The arithmetic of the standardizer\<close>









section \<open>The sample run with the standardizer\<close>








section \<open>The standardizer claim\<close>





end
